theory Spec2Isabelle
  imports Main "HOL-Library.Char_ord" "HOL-Library.List_Lexorder"
begin

section \<open>Python strings and integers\<close>

text \<open>
  A string is the list of its code points; the type \<^typ>\<open>char\<close> holds the code points below
  256, and code points beyond are outside the model. Python's \<^verbatim>\<open>len\<close> is
  \<^const>\<open>length\<close>.
\<close>

datatype py_error = KeyError | ValueError | IndexError | TypeError | AttributeError

text \<open>\<^verbatim>\<open>str(n)\<close> for a non-negative integer.\<close>

definition digit_char :: "nat \<Rightarrow> char" where
  "digit_char d = ''0123456789'' ! d"

function str_nat :: "nat \<Rightarrow> string" where
  "str_nat n = (if n < 10 then [digit_char n] else str_nat (n div 10) @ [digit_char (n mod 10)])"
  by pat_completeness auto
termination
  by (relation "measure (\<lambda>n. n)") auto

declare str_nat.simps [simp del]

text \<open>
  \<^verbatim>\<open>str.isspace\<close> below 256: tab, line feed, vertical tab, form feed, carriage return,
  the four separators \<^verbatim>\<open>\x1c\<close>..\<^verbatim>\<open>\x1f\<close>, the space, the next-line control
  \<^verbatim>\<open>\x85\<close> and the no-break space \<^verbatim>\<open>\xa0\<close>. \<^verbatim>\<open>str.strip\<close>, \<^verbatim>\<open>str.split\<close> and
  the class \<^verbatim>\<open>\s\<close> of a pattern all use this set.
\<close>

definition whitespace :: string where
  "whitespace = [CHR 0x09, CHR 0x0A, CHR 0x0B, CHR 0x0C, CHR 0x0D, CHR 0x1C, CHR 0x1D, CHR 0x1E, CHR 0x1F, CHR 0x20,
                 CHR 0x85, CHR 0xA0]"

definition is_space :: "char \<Rightarrow> bool" where
  "is_space c = (c \<in> set whitespace)"

definition lstrip :: "string \<Rightarrow> string" where
  "lstrip s = dropWhile is_space s"

definition rstrip :: "string \<Rightarrow> string" where
  "rstrip s = rev (dropWhile is_space (rev s))"

definition strip :: "string \<Rightarrow> string" where
  "strip s = rstrip (lstrip s)"

section \<open>cost\_tracker.py\<close>

text \<open>
  The dataclass \<^verbatim>\<open>CostTracker\<close>. The two price constants are floats that
  \<^verbatim>\<open>record_call\<close> never touches; they are left out.
\<close>

record CostTracker =
  total_calls :: int
  input_tokens :: int
  output_tokens :: int
  successful_calls :: int
  failed_calls :: int

definition CostTracker_init :: CostTracker where
  "CostTracker_init =
     \<lparr>total_calls = 0, input_tokens = 0, output_tokens = 0, successful_calls = 0, failed_calls = 0\<rparr>"

definition record_call :: "int \<Rightarrow> int \<Rightarrow> bool \<Rightarrow> CostTracker \<Rightarrow> CostTracker" where
  "record_call inp outp success self =
     (let self = self\<lparr>total_calls := total_calls self + 1\<rparr>;
          self = self\<lparr>input_tokens := input_tokens self + inp\<rparr>;
          self = self\<lparr>output_tokens := output_tokens self + outp\<rparr>
      in if success then self\<lparr>successful_calls := successful_calls self + 1\<rparr>
         else self\<lparr>failed_calls := failed_calls self + 1\<rparr>)"

text \<open>A sequence of \<^verbatim>\<open>record_call\<close> invocations, oldest first.\<close>

fun record_calls :: "(int \<times> int \<times> bool) list \<Rightarrow> CostTracker \<Rightarrow> CostTracker" where
  "record_calls [] self = self"
| "record_calls ((inp, outp, success) # cs) self = record_calls cs (record_call inp outp success self)"

section \<open>pdf\_extractor.py: parse\_options\<close>

record option_dict =
  od_id :: string
  od_text :: string

definition option_map :: "string \<rightharpoonup> string" where
  "option_map = map_of [(''1'', ''A''), (''2'', ''B''), (''3'', ''C''), (''4'', ''D'')]"

text \<open>
  The first loop of \<^verbatim>\<open>parse_options\<close>, over the pairs \<^verbatim>\<open>(num, opt_text)\<close> that
  \<^verbatim>\<open>OPTION_PATTERN.findall(text)\<close> returned.
\<close>

fun collect_options :: "(string \<times> string) list \<Rightarrow> option_dict list" where
  "collect_options [] = []"
| "collect_options ((num, opt_text) # ms) =
     (case option_map num of
        Some letter \<Rightarrow> \<lparr>od_id = letter, od_text = strip opt_text\<rparr> # collect_options ms
      | None \<Rightarrow> collect_options ms)"

text \<open>
  The padding loop \<^verbatim>\<open>while len(options) < 4\<close>; the dictionary lookup
  \<^verbatim>\<open>option_map[str(len(options) + 1)]\<close> raises \<^verbatim>\<open>KeyError\<close> on a missing key.
\<close>

function pad_options :: "option_dict list \<Rightarrow> py_error + option_dict list" where
  "pad_options options =
     (if length options < 4 then
        (case option_map (str_nat (length options + 1)) of
           None \<Rightarrow> Inl KeyError
         | Some letter \<Rightarrow> pad_options (options @ [\<lparr>od_id = letter, od_text = ''''\<rparr>]))
      else Inr options)"
  by pat_completeness auto
termination
  by (relation "measure (\<lambda>options. 4 - length options)") auto

declare pad_options.simps [simp del]

text \<open>
  \<^verbatim>\<open>parse_options\<close>, with the regular-expression engine's
  \<^verbatim>\<open>OPTION_PATTERN.findall\<close> as the parameter \<open>findall\<close>.
\<close>

definition parse_options :: "(string \<Rightarrow> (string \<times> string) list) \<Rightarrow> string \<Rightarrow> py_error + option_dict list" where
  "parse_options findall text =
     (case pad_options (collect_options (findall text)) of
        Inl e \<Rightarrow> Inl e
      | Inr options \<Rightarrow> Inr (take 4 options))"

text \<open>\<^verbatim>\<open>str.lower\<close>, \<^verbatim>\<open>str.startswith\<close>, the substring test \<^verbatim>\<open>sub in s\<close>,
  \<^verbatim>\<open>str.split()\<close> (on runs of whitespace) and \<^verbatim>\<open>' '.join\<close>.\<close>

text \<open>
  The upper-case letters below 256 are the codes \<^verbatim>\<open>0x41\<close> to \<^verbatim>\<open>0x5A\<close> (bits 7 and 5
  clear, bit 6 set, the low five bits between 1 and 26) and the codes \<^verbatim>\<open>0xC0\<close> to
  \<^verbatim>\<open>0xDE\<close> without the multiplication sign \<^verbatim>\<open>0xD7\<close> (bits 7 and 6 set, bit 5 clear,
  the low five bits neither 23 nor 31). The lower-case letter has bit 5 set.
\<close>

definition is_upper :: "char \<Rightarrow> bool" where
  "is_upper c =
     (case c of Char b0 b1 b2 b3 b4 b5 b6 b7 \<Rightarrow>
        (\<not> b7 \<and> b6 \<and> \<not> b5 \<and> (b0 \<or> b1 \<or> b2 \<or> b3 \<or> b4) \<and> \<not> (b4 \<and> b3 \<and> (b2 \<or> (b1 \<and> b0)))) \<or>
        (b7 \<and> b6 \<and> \<not> b5 \<and> \<not> (b4 \<and> b2 \<and> b1 \<and> b0)))"

definition lower_char :: "char \<Rightarrow> char" where
  "lower_char c =
     (case c of Char b0 b1 b2 b3 b4 b5 b6 b7 \<Rightarrow>
        if is_upper c then Char b0 b1 b2 b3 b4 True b6 b7 else c)"

definition lower :: "string \<Rightarrow> string" where
  "lower s = map lower_char s"

definition startswith :: "string \<Rightarrow> string \<Rightarrow> bool" where
  "startswith s p = (take (length p) s = p)"

fun contains :: "string \<Rightarrow> string \<Rightarrow> bool" where
  "contains sub [] = (sub = [])"
| "contains sub (c # cs) = (if startswith (c # cs) sub then True else contains sub cs)"

fun split_from :: "string \<Rightarrow> string \<Rightarrow> string list" where
  "split_from [] cur = (if cur = [] then [] else [cur])"
| "split_from (c # cs) cur =
     (if is_space c then (if cur = [] then split_from cs [] else cur # split_from cs [])
      else split_from cs (cur @ [c]))"

definition split :: "string \<Rightarrow> string list" where
  "split s = split_from s []"

fun join :: "string \<Rightarrow> string list \<Rightarrow> string" where
  "join sep [] = []"
| "join sep [w] = w"
| "join sep (w # ws) = w @ sep @ join sep ws"

section \<open>The regular expressions of config.py\<close>

text \<open>
  Every pattern of the tables in config.py is a sequence of single characters, character
  classes and starred or plussed classes. \<open>Dot\<close> is \<^verbatim>\<open>.\<close> (anything but a line feed),
  \<open>Space\<close> is \<^verbatim>\<open>\s\<close>, \<open>Digit\<close> is \<^verbatim>\<open>\d\<close>, \<open>Among\<close> is a bracket expression with
  its ranges written out (\<^verbatim>\<open>[A-D]\<close> is \<open>Among ''ABCD''\<close>).
\<close>

datatype char_class = Chr char | Dot | Space | Digit | Among string

datatype item = One char_class | Star char_class | Plus char_class

type_synonym regex = "item list"

text \<open>\<open>ic\<close> is the flag \<^verbatim>\<open>re.I\<close>.\<close>

fun class_match :: "bool \<Rightarrow> char_class \<Rightarrow> char \<Rightarrow> bool" where
  "class_match ic (Chr a) x = (if ic then lower_char x = lower_char a else x = a)"
| "class_match ic Dot x = (x \<noteq> CHR 0x0A)"
| "class_match ic Space x = is_space x"
| "class_match ic Digit x = (x \<in> set ''0123456789'')"
| "class_match ic (Among cs) x =
     (if ic then list_ex (\<lambda>c. lower_char x = lower_char c) cs else x \<in> set cs)"

text \<open>Does the pattern match a prefix of the string?\<close>

fun match_here :: "bool \<Rightarrow> regex \<Rightarrow> string \<Rightarrow> bool" where
  "match_here ic [] s = True"
| "match_here ic (One c # r) [] = False"
| "match_here ic (One c # r) (x # xs) = (if class_match ic c x then match_here ic r xs else False)"
| "match_here ic (Star c # r) [] = match_here ic r []"
| "match_here ic (Star c # r) (x # xs) =
     (if match_here ic r (x # xs) then True
      else if class_match ic c x then match_here ic (Star c # r) xs else False)"
| "match_here ic (Plus c # r) [] = False"
| "match_here ic (Plus c # r) (x # xs) =
     (if class_match ic c x then match_here ic (Star c # r) xs else False)"

text \<open>\<^verbatim>\<open>pattern.search(text)\<close> as a truth value: a match starting at some position.\<close>

fun re_search :: "bool \<Rightarrow> regex \<Rightarrow> string \<Rightarrow> bool" where
  "re_search ic r [] = match_here ic r []"
| "re_search ic r (x # xs) = (if match_here ic r (x # xs) then True else re_search ic r xs)"

definition lit :: "string \<Rightarrow> regex" where
  "lit s = map (\<lambda>c. One (Chr c)) s"

definition any_star :: regex where
  "any_star = [Star Dot]"

text \<open>The tables, every pattern compiled with \<^verbatim>\<open>re.I\<close>.\<close>

definition INVALID_PATTERNS :: "regex list" where
  "INVALID_PATTERNS =
    [lit ''test'' @ any_star @ lit ''duration'' @ any_star @ lit ''hours'',
     lit ''blue'' @ any_star @ lit ''black'' @ any_star @ lit ''ball'' @ any_star @ lit ''point'' @ any_star @ lit ''pen'',
     lit ''rough'' @ any_star @ lit ''work'',
     lit ''admit'' @ any_star @ lit ''card'',
     lit ''OMR'' @ any_star @ lit ''sheet'',
     lit ''candidates'' @ any_star @ lit ''governed'',
     lit ''marking'' @ any_star @ lit ''scheme'' @ any_star @ [Plus Digit] @ any_star @ lit ''marks'',
     lit ''general'' @ any_star @ lit ''instructions'',
     lit ''use'' @ any_star @ lit ''HB'' @ any_star @ lit ''pencil'',
     lit ''do'' @ any_star @ lit ''not'' @ any_star @ lit ''fold'',
     lit ''follow'' @ any_star @ lit ''instructions'',
     lit ''negative'' @ any_star @ lit ''marking'' @ any_star @ lit ''deduct'',
     lit ''test'' @ any_star @ lit ''booklet'' @ any_star @ lit ''contains'',
     lit ''maximum'' @ any_star @ lit ''marks'' @ any_star @ lit ''are'',
     lit ''read'' @ any_star @ lit ''the'' @ any_star @ lit ''following'' @ any_star @ lit ''instructions'',
     lit ''darken'' @ any_star @ lit ''the'' @ any_star @ lit ''correct'' @ any_star @ lit ''choice'']"

definition SECTION_START_PATTERNS :: "regex list" where
  "SECTION_START_PATTERNS =
    [lit ''PHYSICS'',
     lit ''SECTION'' @ any_star @ lit ''A'' @ any_star @ lit ''PHYSICS'',
     lit ''Physics'' @ [Plus Space] @ lit ''Section'',
     lit ''PART'' @ any_star @ lit ''A'' @ any_star @ lit ''PHYSICS'']"

definition SECTION_END_PATTERNS :: "regex list" where
  "SECTION_END_PATTERNS =
    [lit ''CHEMISTRY'',
     lit ''BIOLOGY'',
     lit ''BOTANY'',
     lit ''ZOOLOGY'',
     lit ''SECTION'' @ any_star @ lit ''B'']"

text \<open>\<^verbatim>\<open>PLACEHOLDER_PATTERNS\<close> are pattern strings, searched without a flag; each is kept
  beside its parsed form, since the validator quotes the string in its message. \<open>bs\<close> is
  the backslash.\<close>

definition bs :: string where
  "bs = [CHR 0x5C]"

definition PLACEHOLDER_PATTERNS :: "(string \<times> regex) list" where
  "PLACEHOLDER_PATTERNS =
    [(''placeholder'', lit ''placeholder''),
     (''text'' @ bs @ ''s+here'', lit ''text'' @ [Plus Space] @ lit ''here''),
     (''option'' @ bs @ ''s+[A-D]'' @ bs @ ''s+text'',
        lit ''option'' @ [Plus Space] @ [One (Among ''ABCD'')] @ [Plus Space] @ lit ''text''),
     (''sample.*question'', lit ''sample'' @ any_star @ lit ''question''),
     (''analysis'' @ bs @ ''s+not'' @ bs @ ''s+provided'',
        lit ''analysis'' @ [Plus Space] @ lit ''not'' @ [Plus Space] @ lit ''provided''),
     (''chapter'' @ bs @ ''s+name'' @ bs @ ''s+here'',
        lit ''chapter'' @ [Plus Space] @ lit ''name'' @ [Plus Space] @ lit ''here''),
     (''topic'' @ bs @ ''s+name'' @ bs @ ''s+here'',
        lit ''topic'' @ [Plus Space] @ lit ''name'' @ [Plus Space] @ lit ''here'')]"

section \<open>pdf\_extractor.py and pdf\_extractor\_v3.py: find\_section\_bounds\<close>

text \<open>The inner \<^verbatim>\<open>for pattern in ...\<close> loop with its \<^verbatim>\<open>break\<close>: does any pattern match?\<close>

definition any_pattern :: "regex list \<Rightarrow> string \<Rightarrow> bool" where
  "any_pattern patterns text = list_ex (\<lambda>pattern. re_search True pattern text) patterns"

text \<open>The first loop: the index of the first page that matches, or \<open>-1\<close>.\<close>

fun scan_start :: "regex list \<Rightarrow> string list \<Rightarrow> int \<Rightarrow> int" where
  "scan_start patterns [] i = -1"
| "scan_start patterns (page_text # rest) i =
     (if any_pattern patterns page_text then i else scan_start patterns rest (i + 1))"

text \<open>The second loop, over the pages from \<open>i\<close> on; \<open>end_page\<close> starts as the page count.\<close>

fun scan_end :: "regex list \<Rightarrow> string list \<Rightarrow> int \<Rightarrow> int \<Rightarrow> int" where
  "scan_end patterns [] i end_page = end_page"
| "scan_end patterns (page_text # rest) i end_page =
     (if any_pattern patterns page_text then i else scan_end patterns rest (i + 1) end_page)"

definition find_section_bounds :: "string list \<Rightarrow> int \<times> int" where
  "find_section_bounds pages =
     (let start_page = scan_start SECTION_START_PATTERNS pages 0;
          start_page = (if start_page < 0 then 0 else start_page);
          end_page = scan_end SECTION_END_PATTERNS (drop (nat (start_page + 1)) pages)
                       (start_page + 1) (int (length pages))
      in (start_page, end_page))"

section \<open>Question records\<close>

text \<open>
  A raw question as the extractors build it. \<open>rq_options\<close> is the dictionary from the
  letters to the option texts, in insertion order; \<open>rq_correct_index\<close> and
  \<open>rq_correct_answer\<close> are \<open>None\<close> for Python's \<^verbatim>\<open>None\<close>; \<open>rq_text\<close> is the key
  \<^verbatim>\<open>'text'\<close> of pdf\_extractor.py and \<^verbatim>\<open>'full_text'\<close> of pdf\_extractor\_v3.py.
\<close>

record raw_question =
  rq_number :: int
  rq_text :: string
  rq_question_text :: string
  rq_options :: "(string \<times> string) list"
  rq_correct_index :: "int option"
  rq_correct_answer :: "string option"
  rq_has_answer :: bool

text \<open>
  A structured question is the JSON object the generation service returned. Its values
  have the types that \<^verbatim>\<open>NEET_DB_SCHEMA\<close> of config.py gives them; every key may be
  missing (\<open>None\<close>). The keys that no function of the pipeline reads (\<^verbatim>\<open>examInfo\<close>,
  \<^verbatim>\<open>quickMethod\<close>, the image lists, the other classification keys) are left out.
\<close>

record option_entry =
  opt_id :: "string option"
  opt_text :: "string option"
  opt_isCorrect :: "bool option"
  opt_analysis :: "string option"

record classification_dict =
  cl_chapter :: "string option"
  cl_topic :: "string option"
  cl_conceptTags :: "string list option"

record solution_step =
  step_title :: "string option"
  step_content :: "string option"

record structured_question =
  sq_id :: "string option"
  sq_questionNumber :: "int option"
  sq_title :: "string option"
  sq_questionText :: "string option"
  sq_options :: "option_entry list option"
  sq_correctOption :: "string option"
  sq_classification :: "classification_dict option"
  sq_stepByStep :: "solution_step list option"

text \<open>The format specifications \<^verbatim>\<open>{n:03d}\<close> and \<^verbatim>\<open>{n:04d}\<close>: zero padding to a width,
  the sign counted in the width.\<close>

definition zero_pad :: "nat \<Rightarrow> string \<Rightarrow> string" where
  "zero_pad width digits = replicate (width - length digits) CHR ''0'' @ digits"

definition format_0d :: "nat \<Rightarrow> int \<Rightarrow> string" where
  "format_0d width n =
     (if n < 0 then ''-'' @ zero_pad (width - 1) (str_nat (nat (- n)))
      else zero_pad width (str_nat (nat n)))"

definition question_id :: "int \<Rightarrow> string" where
  "question_id number = ''neet_2024_phy_'' @ format_0d 3 number"

section \<open>The generation service\<close>

text \<open>
  One HTTP exchange, as the clients see it. \<open>Raised\<close>: \<^verbatim>\<open>requests.post\<close> or the decoding
  of the body raised. \<open>Response status inp outp parsed\<close>: the status code, the two token
  counts of the \<^verbatim>\<open>usage\<close> object, and what \<^verbatim>\<open>extract_json_from_response\<close> makes of the
  completion text (\<open>None\<close> when it raises \<^verbatim>\<open>ValueError\<close>). The service is a function from
  the number of requests sent so far to the exchange: any run of the program against any
  service is covered. The pauses of \<^verbatim>\<open>time.sleep\<close> change no value and are left out.
\<close>

datatype exchange = Raised | Response int int int "structured_question option"

record api_state =
  tracker :: CostTracker
  requests_sent :: nat

definition count_request :: "api_state \<Rightarrow> api_state" where
  "count_request st = st\<lparr>requests_sent := requests_sent st + 1\<rparr>"

definition track :: "int \<Rightarrow> int \<Rightarrow> bool \<Rightarrow> api_state \<Rightarrow> api_state" where
  "track inp outp success st = st\<lparr>tracker := record_call inp outp success (tracker st)\<rparr>"

section \<open>process\_claude.py: call\_claude\_api\<close>

text \<open>
  \<^verbatim>\<open>for opt in result.get('options', []): opt['isCorrect'] = (opt['id'] == answer)\<close>;
  \<^verbatim>\<open>opt['id']\<close> raises \<^verbatim>\<open>KeyError\<close> on an option without an id.
\<close>

fun fix_options :: "string option \<Rightarrow> option_entry list \<Rightarrow> py_error + option_entry list" where
  "fix_options answer [] = Inr []"
| "fix_options answer (opt # opts) =
     (case opt_id opt of
        None \<Rightarrow> Inl KeyError
      | Some i \<Rightarrow>
          (case fix_options answer opts of
             Inl e \<Rightarrow> Inl e
           | Inr opts' \<Rightarrow> Inr (opt\<lparr>opt_isCorrect := Some (Some i = answer)\<rparr> # opts')))"

text \<open>The check under \<^verbatim>\<open>CRITICAL: Verify answer wasn't changed\<close>.\<close>

definition verify_answer :: "raw_question \<Rightarrow> structured_question \<Rightarrow> py_error + structured_question" where
  "verify_answer question result =
     (if sq_correctOption result \<noteq> rq_correct_answer question then
        (let result = result\<lparr>sq_correctOption := rq_correct_answer question\<rparr>
         in case sq_options result of
              None \<Rightarrow> Inr result
            | Some opts \<Rightarrow>
                (case fix_options (rq_correct_answer question) opts of
                   Inl e \<Rightarrow> Inl e
                 | Inr opts' \<Rightarrow> Inr (result\<lparr>sq_options := Some opts'\<rparr>)))
      else Inr result)"

text \<open>\<^verbatim>\<open>dict.setdefault\<close> on an optional field.\<close>

definition setdefault :: "'a option \<Rightarrow> 'a \<Rightarrow> 'a option" where
  "setdefault field dflt = (case field of None \<Rightarrow> Some dflt | Some v \<Rightarrow> Some v)"

definition ensure_required_claude :: "raw_question \<Rightarrow> structured_question \<Rightarrow> structured_question" where
  "ensure_required_claude question result =
     result\<lparr>sq_id := setdefault (sq_id result) (question_id (rq_number question)),
            sq_questionNumber := setdefault (sq_questionNumber result) (rq_number question),
            sq_questionText := setdefault (sq_questionText result) (rq_question_text question),
            sq_correctOption :=
              (case sq_correctOption result of None \<Rightarrow> rq_correct_answer question | Some v \<Rightarrow> Some v)\<rparr>"

text \<open>
  The retry loop \<^verbatim>\<open>for attempt in range(1, max_retries + 1)\<close>. An attempt that raises
  anywhere in the \<^verbatim>\<open>try\<close> block is recorded as a failed call and the loop goes on; when
  the loop runs out the function returns \<^verbatim>\<open>None\<close>.
\<close>

definition attempt_failed :: "api_state \<Rightarrow> api_state" where
  "attempt_failed st = track 0 0 False st"

function claude_attempts ::
  "(nat \<Rightarrow> exchange) \<Rightarrow> int \<Rightarrow> raw_question \<Rightarrow> int \<Rightarrow> api_state \<Rightarrow> structured_question option \<times> api_state" where
  "claude_attempts service max_retries question attempt st =
     (if attempt \<le> max_retries then
        (case service (requests_sent st) of
           Raised \<Rightarrow>
             claude_attempts service max_retries question (attempt + 1) (attempt_failed (count_request st))
         | Response status inp outp parsed \<Rightarrow>
             (if status \<ge> 400 then
                claude_attempts service max_retries question (attempt + 1) (attempt_failed (count_request st))
              else
                (let st = track inp outp True (count_request st) in
                 case parsed of
                   None \<Rightarrow> claude_attempts service max_retries question (attempt + 1) (attempt_failed st)
                 | Some result \<Rightarrow>
                     (case verify_answer question result of
                        Inl e \<Rightarrow> claude_attempts service max_retries question (attempt + 1) (attempt_failed st)
                      | Inr result \<Rightarrow> (Some (ensure_required_claude question result), st)))))
      else (None, st))"
  by pat_completeness auto
termination
  by (relation "measure (\<lambda>(service, max_retries, question, attempt, st). nat (max_retries + 1 - attempt))") auto

declare claude_attempts.simps [simp del]

definition call_claude_api ::
  "(nat \<Rightarrow> exchange) \<Rightarrow> int \<Rightarrow> raw_question \<Rightarrow> api_state \<Rightarrow> structured_question option \<times> api_state" where
  "call_claude_api service max_retries question st = claude_attempts service max_retries question 1 st"

text \<open>The options of a record whose \<^verbatim>\<open>isCorrect\<close> flag is true.\<close>

definition options_of :: "structured_question \<Rightarrow> option_entry list" where
  "options_of result = (case sq_options result of None \<Rightarrow> [] | Some opts \<Rightarrow> opts)"

definition flagged_correct :: "structured_question \<Rightarrow> option_entry list" where
  "flagged_correct result = filter (\<lambda>opt. opt_isCorrect opt = Some True) (options_of result)"

section \<open>JSON values\<close>

text \<open>
  What \<^verbatim>\<open>json.loads\<close> returns. An object is a Python dictionary: its pairs in insertion
  order, every key once. Numbers with a fraction are left out: no function of the pipeline
  computes with a number of a response.
\<close>

datatype json =
    JNull
  | JBool bool
  | JInt int
  | JStr string
  | JArr "json list"
  | JObj "(string \<times> json) list"

type_synonym object = "(string \<times> json) list"

text \<open>\<^verbatim>\<open>d.get(key)\<close> (\<^verbatim>\<open>None\<close> is \<open>JNull\<close>), \<^verbatim>\<open>d.get(key, default)\<close>, \<^verbatim>\<open>key in d\<close> and
  \<^verbatim>\<open>d.setdefault(key, default)\<close>.\<close>

definition get_or :: "object \<Rightarrow> string \<Rightarrow> json \<Rightarrow> json" where
  "get_or d key dflt = (case map_of d key of None \<Rightarrow> dflt | Some v \<Rightarrow> v)"

definition get :: "object \<Rightarrow> string \<Rightarrow> json" where
  "get d key = get_or d key JNull"

definition has_key :: "object \<Rightarrow> string \<Rightarrow> bool" where
  "has_key d key = (map_of d key \<noteq> None)"

definition dict_setdefault :: "string \<Rightarrow> json \<Rightarrow> object \<Rightarrow> object" where
  "dict_setdefault key dflt d = (if has_key d key then d else d @ [(key, dflt)])"

text \<open>The truth value of a value, as \<^verbatim>\<open>if v\<close> and \<^verbatim>\<open>not v\<close> take it.\<close>

fun truthy :: "json \<Rightarrow> bool" where
  "truthy JNull = False"
| "truthy (JBool b) = b"
| "truthy (JInt n) = (n \<noteq> 0)"
| "truthy (JStr s) = (s \<noteq> [])"
| "truthy (JArr xs) = (xs \<noteq> [])"
| "truthy (JObj d) = (d \<noteq> [])"

text \<open>\<^verbatim>\<open>len(v)\<close> raises \<^verbatim>\<open>TypeError\<close> on \<^verbatim>\<open>None\<close>, a truth value and a number.\<close>

fun py_len :: "json \<Rightarrow> py_error + nat" where
  "py_len (JStr s) = Inr (length s)"
| "py_len (JArr xs) = Inr (length xs)"
| "py_len (JObj d) = Inr (length d)"
| "py_len v = Inl TypeError"

text \<open>\<^verbatim>\<open>v.lower()\<close> raises \<^verbatim>\<open>AttributeError\<close> on anything but a string.\<close>

fun py_lower :: "json \<Rightarrow> py_error + string" where
  "py_lower (JStr s) = Inr (lower s)"
| "py_lower v = Inl AttributeError"

text \<open>\<^verbatim>\<open>v.get\<close> raises \<^verbatim>\<open>AttributeError\<close> on anything but a dictionary.\<close>

fun as_dict :: "json \<Rightarrow> py_error + object" where
  "as_dict (JObj d) = Inr d"
| "as_dict v = Inl AttributeError"

text \<open>\<^verbatim>\<open>for x in v\<close>: the elements of a list, the characters of a string, the keys of a
  dictionary; anything else raises \<^verbatim>\<open>TypeError\<close>.\<close>

fun py_iter :: "json \<Rightarrow> py_error + json list" where
  "py_iter (JArr xs) = Inr xs"
| "py_iter (JStr s) = Inr (map (\<lambda>c. JStr [c]) s)"
| "py_iter (JObj d) = Inr (map (\<lambda>(key, v). JStr key) d)"
| "py_iter v = Inl TypeError"

text \<open>A list or a dictionary cannot be a member of a \<^verbatim>\<open>set\<close>: \<^verbatim>\<open>TypeError\<close>.\<close>

fun unhashable :: "json \<Rightarrow> bool" where
  "unhashable (JArr xs) = True"
| "unhashable (JObj d) = True"
| "unhashable v = False"

text \<open>
  \<^verbatim>\<open>str(v)\<close>. For a list or a dictionary it is Python's \<^verbatim>\<open>repr\<close>, with its quoting and
  escaping of strings: the parameter \<open>repr\<close>.
\<close>

definition str_int :: "int \<Rightarrow> string" where
  "str_int n = (if n < 0 then ''-'' @ str_nat (nat (- n)) else str_nat (nat n))"

fun py_str :: "(json \<Rightarrow> string) \<Rightarrow> json \<Rightarrow> string" where
  "py_str repr JNull = ''None''"
| "py_str repr (JBool b) = (if b then ''True'' else ''False'')"
| "py_str repr (JInt n) = str_int n"
| "py_str repr (JStr s) = s"
| "py_str repr v = repr v"

text \<open>Sequencing of steps that may raise.\<close>

definition and_then :: "py_error + 'a \<Rightarrow> ('a \<Rightarrow> py_error + 'b) \<Rightarrow> py_error + 'b" where
  "and_then r f = (case r of Inl e \<Rightarrow> Inl e | Inr v \<Rightarrow> f v)"

section \<open>question\_validator.py\<close>

definition question_markers :: "string list" where
  "question_markers = [''?'', ''calculate'', ''find'', ''determine'', ''if'', ''when'']"

definition instruction_verbs :: "string list" where
  "instruction_verbs = [''read'', ''fill'', ''write'', ''darken'', ''use only'', ''do not'', ''ensure'']"

definition is_valid_physics_question :: "string \<Rightarrow> bool" where
  "is_valid_physics_question text =
     (if text = [] \<or> length (strip text) < 20 then False
      else let text_lower = lower text in
        if list_ex (\<lambda>pattern. re_search True pattern text) INVALID_PATTERNS then False
        else let words = split text in
          if length words < 10 then False
          else let has_question_markers = list_ex (\<lambda>marker. contains marker text) question_markers;
                   starts_with_instruction =
                     list_ex (\<lambda>verb. startswith (strip text_lower) verb) instruction_verbs
               in if starts_with_instruction \<and> \<not> has_question_markers then False else True)"

text \<open>
  The messages of \<^verbatim>\<open>validate_question_completeness\<close>, one constructor for each format
  string, with the values the string interpolates.
\<close>

datatype reason =
    Missing_required_field string
  | Question_text_too_short nat
  | Found_placeholder_pattern string
  | Expected_4_options nat
  | Invalid_option_IDs "json list"
  | Placeholder_found_in_option json
  | Invalid_correctOption json
  | Chapter_is_missing_or_placeholder
  | Topic_is_missing_or_placeholder
  | Insufficient_concept_tags nat
  | Placeholder_concepts_found
  | Missing_stepByStep_solution
  | Solution_too_brief nat

definition required_fields :: "string list" where
  "required_fields = [''id'', ''questionText'', ''options'', ''correctOption'', ''classification'']"

text \<open>The loop over \<^verbatim>\<open>required_fields\<close>: a key counts as present whatever its value.\<close>

definition missing_fields :: "object \<Rightarrow> reason list" where
  "missing_fields question =
     map Missing_required_field (filter (\<lambda>field. \<not> has_key question field) required_fields)"

text \<open>The loop over \<^verbatim>\<open>PLACEHOLDER_PATTERNS\<close> with its \<^verbatim>\<open>break\<close>.\<close>

fun placeholder_errors :: "(string \<times> regex) list \<Rightarrow> string \<Rightarrow> reason list" where
  "placeholder_errors [] text_lower = []"
| "placeholder_errors ((pattern, parsed) # patterns) text_lower =
     (if re_search False parsed text_lower then [Found_placeholder_pattern pattern]
      else placeholder_errors patterns text_lower)"

text \<open>Lines 77 to 86: \<^verbatim>\<open>len(question_text)\<close> and \<^verbatim>\<open>question_text.lower()\<close> raise on a
  value that is not a string.\<close>

definition text_errors :: "json \<Rightarrow> py_error + reason list" where
  "text_errors question_text =
     and_then (py_len question_text) (\<lambda>n.
     and_then (py_lower question_text) (\<lambda>text_lower.
       Inr ((if n < 50 then [Question_text_too_short n] else []) @
            placeholder_errors PLACEHOLDER_PATTERNS text_lower)))"

text \<open>\<^verbatim>\<open>[opt.get('id') for opt in options]\<close>: every element must be a dictionary.\<close>

fun option_ids :: "json list \<Rightarrow> py_error + json list" where
  "option_ids [] = Inr []"
| "option_ids (opt # opts) =
     and_then (as_dict opt) (\<lambda>d.
     and_then (option_ids opts) (\<lambda>ids. Inr (get d ''id'' # ids)))"

text \<open>The loop over the options that looks for placeholder text, with its \<^verbatim>\<open>break\<close>;
  \<^verbatim>\<open>opt.get('text', '').lower()\<close> raises on a text that is not a string.\<close>

fun option_placeholder_errors :: "json list \<Rightarrow> py_error + reason list" where
  "option_placeholder_errors [] = Inr []"
| "option_placeholder_errors (opt # opts) =
     and_then (as_dict opt) (\<lambda>d.
     and_then (py_lower (get_or d ''text'' (JStr []))) (\<lambda>opt_text.
       if contains ''text here'' opt_text \<or> (contains ''option'' opt_text \<and> contains ''text'' opt_text)
       then Inr [Placeholder_found_in_option (get d ''id'')]
       else option_placeholder_errors opts))"

text \<open>Lines 89 to 103; \<^verbatim>\<open>set(option_ids)\<close> raises on an id that is a list or a
  dictionary.\<close>

definition options_errors :: "json \<Rightarrow> py_error + reason list" where
  "options_errors opts =
     and_then (py_len opts) (\<lambda>n.
       if n \<noteq> 4 then Inr [Expected_4_options n]
       else
         and_then (py_iter opts) (\<lambda>elements.
         and_then (option_ids elements) (\<lambda>ids.
           if list_ex unhashable ids then Inl TypeError
           else
             and_then (option_placeholder_errors elements) (\<lambda>placeholders.
               Inr ((if set ids \<noteq> {JStr ''A'', JStr ''B'', JStr ''C'', JStr ''D''}
                     then [Invalid_option_IDs ids] else []) @ placeholders)))))"

definition correct_option_errors :: "json \<Rightarrow> reason list" where
  "correct_option_errors correct_option =
     (if correct_option \<notin> set [JStr ''A'', JStr ''B'', JStr ''C'', JStr ''D'']
      then [Invalid_correctOption correct_option] else [])"

text \<open>\<^verbatim>\<open>not v or v.lower() in [...]\<close>: a false value is missing; \<^verbatim>\<open>v.lower()\<close> raises on a
  true value that is not a string.\<close>

definition missing_or_placeholder :: "json \<Rightarrow> string list \<Rightarrow> py_error + bool" where
  "missing_or_placeholder v placeholders =
     (if \<not> truthy v then Inr True
      else and_then (py_lower v) (\<lambda>l. Inr (l \<in> set placeholders)))"

text \<open>The generator of \<^verbatim>\<open>any(...)\<close> over the concept tags: \<^verbatim>\<open>tag.lower()\<close> is reached, and
  raises on a tag that is not a string, only when \<^verbatim>\<open>str(tag).lower()\<close> contains
  \<^verbatim>\<open>concept\<close>.\<close>

fun placeholder_concept :: "(json \<Rightarrow> string) \<Rightarrow> json list \<Rightarrow> py_error + bool" where
  "placeholder_concept repr [] = Inr False"
| "placeholder_concept repr (tag # tags) =
     (if contains ''concept'' (lower (py_str repr tag))
      then and_then (py_lower tag) (\<lambda>l.
             if \<not> startswith l ''concept'' then Inr True else placeholder_concept repr tags)
      else placeholder_concept repr tags)"

text \<open>Lines 121 to 126: the message of the first branch interpolates
  \<^verbatim>\<open>len(concept_tags)\<close>, so the length is taken, or raises, in every case.\<close>

definition concept_tags_errors :: "(json \<Rightarrow> string) \<Rightarrow> json \<Rightarrow> py_error + reason list" where
  "concept_tags_errors repr concept_tags =
     and_then (py_len concept_tags) (\<lambda>n.
       if \<not> truthy concept_tags \<or> n < 2 then Inr [Insufficient_concept_tags n]
       else
         and_then (py_iter concept_tags) (\<lambda>tags.
         and_then (placeholder_concept repr tags) (\<lambda>found.
           Inr (if found then [Placeholder_concepts_found] else []))))"

text \<open>Lines 111 to 126; \<^verbatim>\<open>classification.get\<close> raises unless the classification is a
  dictionary.\<close>

definition classification_errors :: "(json \<Rightarrow> string) \<Rightarrow> json \<Rightarrow> py_error + reason list" where
  "classification_errors repr classification =
     and_then (as_dict classification) (\<lambda>c.
     and_then (missing_or_placeholder (get_or c ''chapter'' (JStr [])) [''unknown'', ''chapter name here''])
       (\<lambda>bad_chapter.
     and_then (missing_or_placeholder (get_or c ''topic'' (JStr [])) [''unknown'', ''topic name here''])
       (\<lambda>bad_topic.
     and_then (concept_tags_errors repr (get_or c ''conceptTags'' (JArr []))) (\<lambda>tag_errors.
       Inr ((if bad_chapter then [Chapter_is_missing_or_placeholder] else []) @
            (if bad_topic then [Topic_is_missing_or_placeholder] else []) @
            tag_errors)))))"

text \<open>Lines 129 to 133.\<close>

definition steps_errors :: "json \<Rightarrow> py_error + reason list" where
  "steps_errors steps =
     (if \<not> truthy steps then Inr [Missing_stepByStep_solution]
      else and_then (py_len steps) (\<lambda>n. Inr (if n < 2 then [Solution_too_brief n] else [])))"

text \<open>
  The function. It returns the pair, or raises: \<^verbatim>\<open>TypeError\<close> or \<^verbatim>\<open>AttributeError\<close> on a
  key that is present with \<^verbatim>\<open>null\<close> or with a value of another type than the code
  expects.
\<close>

definition validate_question_completeness ::
  "(json \<Rightarrow> string) \<Rightarrow> object \<Rightarrow> py_error + bool \<times> reason list" where
  "validate_question_completeness repr question =
     (let errors = missing_fields question in
      if errors \<noteq> [] then Inr (False, errors)
      else
        and_then (text_errors (get_or question ''questionText'' (JStr []))) (\<lambda>errors1.
        and_then (options_errors (get_or question ''options'' (JArr []))) (\<lambda>errors2.
        and_then (classification_errors repr (get_or question ''classification'' (JObj []))) (\<lambda>errors4.
        and_then (steps_errors (get_or question ''stepByStep'' (JArr []))) (\<lambda>errors5.
          (let errors = errors @ errors1 @ errors2 @ correct_option_errors (get question ''correctOption'') @
                        errors4 @ errors5
           in Inr (length errors = 0, errors)))))))"

section \<open>process\_questions\_v2.py: call\_perplexity\_api\<close>

text \<open>
  One HTTP exchange with the service of process\_questions\_v2.py. \<open>Failed_request\<close>:
  \<^verbatim>\<open>requests.post\<close> or the decoding of the body raised. \<open>Completed status inp outp parsed\<close>:
  the status code, the token counts that \<^verbatim>\<open>record_call\<close> receives (those of the
  \<^verbatim>\<open>usage\<close> object, or the estimates that replace missing ones), and what
  \<^verbatim>\<open>extract_json_from_response\<close> makes of the completion text: \<open>None\<close> when it raises
  \<^verbatim>\<open>ValueError\<close>, and otherwise a JSON object, which may hold any keys and any values. As
  before, the service is a function from the number of requests sent so far.
\<close>

datatype completion = Failed_request | Completed int int int "object option"

definition ensure_required_perplexity :: "raw_question \<Rightarrow> object \<Rightarrow> object" where
  "ensure_required_perplexity question result =
     dict_setdefault ''questionText'' (JStr (rq_question_text question))
       (dict_setdefault ''questionNumber'' (JInt (rq_number question))
          (dict_setdefault ''id'' (JStr (question_id (rq_number question))) result))"

function perplexity_attempts ::
  "(nat \<Rightarrow> completion) \<Rightarrow> int \<Rightarrow> raw_question \<Rightarrow> int \<Rightarrow> api_state \<Rightarrow> object option \<times> api_state" where
  "perplexity_attempts service max_retries question attempt st =
     (if attempt \<le> max_retries then
        (case service (requests_sent st) of
           Failed_request \<Rightarrow>
             perplexity_attempts service max_retries question (attempt + 1) (attempt_failed (count_request st))
         | Completed status inp outp parsed \<Rightarrow>
             (if status \<ge> 400 then
                perplexity_attempts service max_retries question (attempt + 1) (attempt_failed (count_request st))
              else
                (let st = track inp outp True (count_request st) in
                 case parsed of
                   None \<Rightarrow> perplexity_attempts service max_retries question (attempt + 1) (attempt_failed st)
                 | Some result \<Rightarrow> (Some (ensure_required_perplexity question result), st))))
      else (None, st))"
  by pat_completeness auto
termination
  by (relation "measure (\<lambda>(service, max_retries, question, attempt, st). nat (max_retries + 1 - attempt))") auto

declare perplexity_attempts.simps [simp del]

definition call_perplexity_api ::
  "(nat \<Rightarrow> completion) \<Rightarrow> int \<Rightarrow> raw_question \<Rightarrow> api_state \<Rightarrow> object option \<times> api_state" where
  "call_perplexity_api service max_retries question st = perplexity_attempts service max_retries question 1 st"

section \<open>process\_questions\_v2.py: progress, batch files and the failure log\<close>

text \<open>
  The progress dictionary. \<open>next_question_index\<close> is a natural number: \<^verbatim>\<open>save_progress\<close>
  only ever writes \<^verbatim>\<open>min(i + batch_size, len(questions))\<close>.
\<close>

record progress =
  last_completed_batch :: int
  next_question_index :: nat
  processed_question_ids :: "int list"

definition initial_progress :: progress where
  "initial_progress = \<lparr>last_completed_batch = -1, next_question_index = 0, processed_question_ids = []\<rparr>"

text \<open>The reasons that \<^verbatim>\<open>process_questions_in_batches\<close> logs; the time stamp of a log line
  is left out.\<close>

datatype failure_reason = Invalid_physics_content | API_call_failed | Validation reason

record failure_record =
  fr_question_number :: int
  fr_reason :: failure_reason

text \<open>
  What the run reads and writes: the directory of batch files (file name and content), the
  progress file, the failure log, the state of the service and of the cost tracker, and
  the list \<^verbatim>\<open>all_results\<close>.
\<close>

record run_state =
  run_progress :: progress
  batches_dir :: "(string \<times> object list) list"
  progress_file :: "progress option"
  failed_log :: "failure_record list"
  api :: api_state
  all_results :: "object list"

record run_config =
  cfg_service :: "nat \<Rightarrow> completion"
  cfg_max_retries :: int
  cfg_batch_size :: nat
  cfg_resume :: bool
  cfg_dry_run :: bool

definition load_progress :: "progress option \<Rightarrow> progress" where
  "load_progress file = (case file of Some p \<Rightarrow> p | None \<Rightarrow> initial_progress)"

definition save_progress :: "run_state \<Rightarrow> run_state" where
  "save_progress st = st\<lparr>progress_file := Some (run_progress st)\<rparr>"

definition batch_file_name :: "int \<Rightarrow> string" where
  "batch_file_name batch_num = ''batch_'' @ format_0d 4 batch_num @ ''.json''"

fun write_file :: "string \<Rightarrow> 'a \<Rightarrow> (string \<times> 'a) list \<Rightarrow> (string \<times> 'a) list" where
  "write_file name content [] = [(name, content)]"
| "write_file name content ((n, c) # files) =
     (if n = name then (name, content) # files else (n, c) # write_file name content files)"

definition save_batch :: "int \<Rightarrow> object list \<Rightarrow> run_state \<Rightarrow> run_state" where
  "save_batch batch_num questions st =
     st\<lparr>batches_dir := write_file (batch_file_name batch_num) questions (batches_dir st)\<rparr>"

definition log_failed_question :: "int \<Rightarrow> failure_reason \<Rightarrow> run_state \<Rightarrow> run_state" where
  "log_failed_question question_num why st =
     st\<lparr>failed_log := failed_log st @ [\<lparr>fr_question_number = question_num, fr_reason = why\<rparr>]\<rparr>"

section \<open>process\_questions\_v2.py: process\_questions\_in\_batches\<close>

text \<open>
  The body of \<^verbatim>\<open>for q in batch\<close>, on the list \<^verbatim>\<open>batch_results\<close> and the state. The call
  of \<^verbatim>\<open>validate_question_completeness\<close> stands outside every \<^verbatim>\<open>try\<close>: when it raises,
  the exception leaves the function, and neither the batch nor the progress is saved.
  \<^verbatim>\<open>errors[0]\<close> raises \<^verbatim>\<open>IndexError\<close> on an empty list.
\<close>

definition process_question ::
  "(json \<Rightarrow> string) \<Rightarrow> run_config \<Rightarrow> raw_question \<Rightarrow> object list \<times> run_state \<Rightarrow>
   py_error + object list \<times> run_state" where
  "process_question repr cfg q acc =
     (let (batch_results, st) = acc; q_num = rq_number q in
      if q_num \<in> set (processed_question_ids (run_progress st)) then Inr (batch_results, st)
      else if \<not> is_valid_physics_question (rq_text q)
        then Inr (batch_results, log_failed_question q_num Invalid_physics_content st)
      else if cfg_dry_run cfg then Inr (batch_results, st)
      else
        (case call_perplexity_api (cfg_service cfg) (cfg_max_retries cfg) q (api st) of
           (None, api') \<Rightarrow> Inr (batch_results, log_failed_question q_num API_call_failed (st\<lparr>api := api'\<rparr>))
         | (Some structured, api') \<Rightarrow>
             (let st = st\<lparr>api := api'\<rparr> in
              case validate_question_completeness repr structured of
                Inl e \<Rightarrow> Inl e
              | Inr (is_valid, errors) \<Rightarrow>
                  (let logged = (if \<not> is_valid then
                                   (case errors of
                                      [] \<Rightarrow> Inl IndexError
                                    | e # _ \<Rightarrow> Inr (log_failed_question q_num (Validation e) st))
                                 else Inr st)
                   in case logged of
                        Inl e \<Rightarrow> Inl e
                      | Inr st \<Rightarrow>
                          Inr (batch_results @ [structured],
                               st\<lparr>run_progress := (run_progress st)
                                     \<lparr>processed_question_ids :=
                                        processed_question_ids (run_progress st) @ [q_num]\<rparr>,
                                  all_results := all_results st @ [structured]\<rparr>)))))"

fun process_records ::
  "(json \<Rightarrow> string) \<Rightarrow> run_config \<Rightarrow> raw_question list \<Rightarrow> object list \<times> run_state \<Rightarrow>
   py_error + object list \<times> run_state" where
  "process_records repr cfg [] acc = Inr acc"
| "process_records repr cfg (q # batch) acc =
     (case process_question repr cfg q acc of
        Inl e \<Rightarrow> Inl e
      | Inr acc \<Rightarrow> process_records repr cfg batch acc)"

text \<open>
  One turn of the loop \<^verbatim>\<open>for batch_num, i in enumerate(range(start_idx, len(questions),
  batch_size))\<close>.
\<close>

definition process_batch ::
  "(json \<Rightarrow> string) \<Rightarrow> run_config \<Rightarrow> raw_question list \<Rightarrow> nat \<times> nat \<Rightarrow> run_state \<Rightarrow> py_error + run_state" where
  "process_batch repr cfg questions p st =
     (let (batch_num, i) = p;
          actual_batch_num = last_completed_batch (run_progress st) + 1 + int batch_num;
          batch = take (cfg_batch_size cfg) (drop i questions)
      in case process_records repr cfg batch ([], st) of
           Inl e \<Rightarrow> Inl e
         | Inr (batch_results, st) \<Rightarrow>
             (let st = (if batch_results \<noteq> [] \<and> \<not> cfg_dry_run cfg
                        then save_batch actual_batch_num batch_results st else st);
                  st = st\<lparr>run_progress := (run_progress st)
                          \<lparr>last_completed_batch := actual_batch_num,
                           next_question_index := min (i + cfg_batch_size cfg) (length questions)\<rparr>\<rparr>
              in Inr (save_progress st)))"

fun run_batches ::
  "(json \<Rightarrow> string) \<Rightarrow> run_config \<Rightarrow> raw_question list \<Rightarrow> (nat \<times> nat) list \<Rightarrow> run_state \<Rightarrow> py_error + run_state" where
  "run_batches repr cfg questions [] st = Inr st"
| "run_batches repr cfg questions (p # ps) st =
     (case process_batch repr cfg questions p st of
        Inl e \<Rightarrow> Inl e
      | Inr st \<Rightarrow> run_batches repr cfg questions ps st)"

text \<open>\<^verbatim>\<open>range(start, stop, step)\<close> for a positive step.\<close>

function range_list :: "nat \<Rightarrow> nat \<Rightarrow> nat \<Rightarrow> nat list" where
  "range_list start stop step =
     (if step = 0 \<or> stop \<le> start then [] else start # range_list (start + step) stop step)"
  by pat_completeness auto
termination
  by (relation "measure (\<lambda>(start, stop, step). stop - start)") auto

declare range_list.simps [simp del]

text \<open>
  The whole function, from the files it finds (the cost tracker is new, the service has
  received \<open>sent\<close> requests; \<open>repr\<close> is Python's \<^verbatim>\<open>repr\<close>, which the validator may call). \<^verbatim>\<open>range\<close> raises \<^verbatim>\<open>ValueError\<close> on the
  step 0; a negative batch size is outside the model.
\<close>

definition start_state :: "run_config \<Rightarrow> (string \<times> object list) list \<Rightarrow> progress option \<Rightarrow>
    failure_record list \<Rightarrow> nat \<Rightarrow> run_state" where
  "start_state cfg dir file log sent =
     \<lparr>run_progress = (if cfg_resume cfg then load_progress file else initial_progress),
      batches_dir = dir, progress_file = file, failed_log = log,
      api = \<lparr>tracker = CostTracker_init, requests_sent = sent\<rparr>,
      all_results = []\<rparr>"

definition process_questions_in_batches ::
  "(json \<Rightarrow> string) \<Rightarrow> run_config \<Rightarrow> raw_question list \<Rightarrow> (string \<times> object list) list \<Rightarrow>
   progress option \<Rightarrow> failure_record list \<Rightarrow> nat \<Rightarrow> py_error + run_state" where
  "process_questions_in_batches repr cfg questions dir file log sent =
     (let st = start_state cfg dir file log sent;
          start_idx = next_question_index (run_progress st)
      in if cfg_batch_size cfg = 0 then Inl ValueError
         else run_batches repr cfg questions
                (enumerate 0 (range_list start_idx (length questions) (cfg_batch_size cfg))) st)"

section \<open>process\_questions\_v2.py: merge\_batches\<close>

text \<open>The pattern \<^verbatim>\<open>batch_*.json\<close> of \<^verbatim>\<open>glob\<close>.\<close>

definition endswith :: "string \<Rightarrow> string \<Rightarrow> bool" where
  "endswith s p = startswith (rev s) (rev p)"

definition glob_batch :: "string \<Rightarrow> bool" where
  "glob_batch name = (length name \<ge> 11 \<and> startswith name ''batch_'' \<and> endswith name ''.json'')"

text \<open>\<^verbatim>\<open>sorted(batches_dir.glob("batch_*.json"))\<close>: the paths of one directory compare as
  their names do, character by character.\<close>

definition batch_files :: "(string \<times> object list) list \<Rightarrow> (string \<times> object list) list" where
  "batch_files dir = sort_key fst (filter (\<lambda>(name, batch_questions). glob_batch name) dir)"

text \<open>
  The loop \<^verbatim>\<open>for q in batch_questions\<close> on \<^verbatim>\<open>all_questions\<close> and \<^verbatim>\<open>seen_ids\<close>. A missing
  id is \<^verbatim>\<open>None\<close>; an id that is false (\<^verbatim>\<open>None\<close>, the empty string, zero, ...) fails
  \<^verbatim>\<open>if q_id and ...\<close>; the membership test raises \<^verbatim>\<open>TypeError\<close> on a list or a
  dictionary. In a \<^verbatim>\<open>set\<close>, \<^verbatim>\<open>True\<close> and the number 1 are one member: \<open>set_key\<close>.
\<close>

fun set_key :: "json \<Rightarrow> json" where
  "set_key (JBool b) = JInt (if b then 1 else 0)"
| "set_key v = v"

fun add_questions ::
  "object list \<Rightarrow> object list \<times> json set \<Rightarrow> py_error + object list \<times> json set" where
  "add_questions [] acc = Inr acc"
| "add_questions (q # batch_questions) (all_questions, seen_ids) =
     (let q_id = get q ''id'' in
      if \<not> truthy q_id then add_questions batch_questions (all_questions, seen_ids)
      else if unhashable q_id then Inl TypeError
      else if set_key q_id \<notin> seen_ids
        then add_questions batch_questions (all_questions @ [q], insert (set_key q_id) seen_ids)
      else add_questions batch_questions (all_questions, seen_ids))"

fun read_batches ::
  "(string \<times> object list) list \<Rightarrow> object list \<times> json set \<Rightarrow> py_error + object list \<times> json set" where
  "read_batches [] acc = Inr acc"
| "read_batches ((batch_file, batch_questions) # files) acc =
     and_then (add_questions batch_questions acc) (read_batches files)"

text \<open>The dataset; of the metadata only \<^verbatim>\<open>totalQuestions\<close> depends on the batches. The
  check against the schema only logs a warning.\<close>

record dataset =
  ds_totalQuestions :: nat
  ds_questions :: "object list"

definition merge_batches :: "(string \<times> object list) list \<Rightarrow> py_error + dataset" where
  "merge_batches dir =
     and_then (read_batches (batch_files dir) ([], {})) (\<lambda>(all_questions, seen_ids).
       Inr \<lparr>ds_totalQuestions = length all_questions, ds_questions = all_questions\<rparr>)"
section \<open>The outcome of each record of a batch\<close>

text \<open>
  What the specification calls a record that succeeds and a record that fails generation:
  the result of \<^verbatim>\<open>call_perplexity_api\<close> on the records the orchestrator does not skip
  (already processed, not a valid physics question, or a dry run). \<open>ids\<close> are the
  processed question numbers, \<open>a\<close> is the state of the service.
\<close>

datatype outcome = Skipped | Generation_failed | Generated object



fun generated :: "outcome list \<Rightarrow> object list" where
  "generated [] = []"
| "generated (Generated structured # outs) = structured # generated outs"
| "generated (out # outs) = generated outs"


section \<open>Example data\<close>

text \<open>Question 7 of the specification's example scenario, as the strict matcher builds it.\<close>

definition example_question :: raw_question where
  "example_question =
     \<lparr>rq_number = 7,
      rq_text = ''What is the SI unit of force in the international system?'',
      rq_question_text = ''What is the SI unit of force in the international system?'',
      rq_options = [(''A'', ''Joule''), (''B'', ''Newton''), (''C'', ''Watt''), (''D'', ''Pascal'')],
      rq_correct_index = Some 2,
      rq_correct_answer = Some ''B'',
      rq_has_answer = True\<rparr>"

definition example_option :: "string \<Rightarrow> string \<Rightarrow> bool \<Rightarrow> option_entry" where
  "example_option i t flag =
     \<lparr>opt_id = Some i, opt_text = Some t, opt_isCorrect = Some flag,
      opt_analysis = Some ''The newton is the SI unit of force.''\<rparr>"

text \<open>A response of the service for question 7 that names \<open>correct\<close> as the correct
  option and sets the flag of option \<open>flagged\<close>.\<close>

definition example_response :: "string \<Rightarrow> string \<Rightarrow> structured_question" where
  "example_response correct flagged =
     \<lparr>sq_id = Some ''neet_2024_phy_007'',
      sq_questionNumber = Some 7,
      sq_title = Some ''SI unit of force'',
      sq_questionText = Some ''What is the SI unit of force in the international system?'',
      sq_options = Some [example_option ''A'' ''Joule'' (flagged = ''A''),
                         example_option ''B'' ''Newton'' (flagged = ''B''),
                         example_option ''C'' ''Watt'' (flagged = ''C''),
                         example_option ''D'' ''Pascal'' (flagged = ''D'')],
      sq_correctOption = Some correct,
      sq_classification = Some \<lparr>cl_chapter = Some ''Laws of Motion'', cl_topic = Some ''Force'',
                                  cl_conceptTags = Some [''force'', ''SI units'', ''newton'']\<rparr>,
      sq_stepByStep = Some [\<lparr>step_title = Some ''Step 1: Recall the definition'',
                               step_content = Some ''Force is mass times acceleration.''\<rparr>,
                             \<lparr>step_title = Some ''Step 2: Name the unit'',
                               step_content = Some ''One kilogram metre per second squared is one newton.''\<rparr>]\<rparr>"

definition fresh_api_state :: api_state where
  "fresh_api_state = \<lparr>tracker = CostTracker_init, requests_sent = 0\<rparr>"

text \<open>The same question and answer as a JSON object of the service of
  process\_questions\_v2.py; \<open>record_body\<close> has neither id nor number nor title.\<close>

definition json_option :: "string \<Rightarrow> string \<Rightarrow> bool \<Rightarrow> json" where
  "json_option i t flag =
     JObj [(''id'', JStr i), (''text'', JStr t), (''isCorrect'', JBool flag),
           (''analysis'', JStr ''The newton is the SI unit of force.'')]"

definition record_body :: object where
  "record_body =
     [(''questionText'', JStr ''What is the SI unit of force in the international system?''),
      (''options'', JArr [json_option ''A'' ''Joule'' False, json_option ''B'' ''Newton'' True,
                          json_option ''C'' ''Watt'' False, json_option ''D'' ''Pascal'' False]),
      (''correctOption'', JStr ''B''),
      (''classification'', JObj [(''chapter'', JStr ''Laws of Motion''), (''topic'', JStr ''Force''),
                                 (''conceptTags'', JArr [JStr ''force'', JStr ''SI units'', JStr ''newton''])]),
      (''stepByStep'', JArr [JObj [(''title'', JStr ''Step 1: Recall the definition''),
                                   (''content'', JStr ''Force is mass times acceleration.'')],
                             JObj [(''title'', JStr ''Step 2: Name the unit''),
                                   (''content'', JStr ''One kilogram metre per second squared is one newton.'')]])]"

definition complete_record :: object where
  "complete_record = (''title'', JStr ''SI unit of force'') # record_body"

text \<open>A response whose \<^verbatim>\<open>questionText\<close> is \<^verbatim>\<open>null\<close>: the key is present.\<close>

definition null_text_record :: object where
  "null_text_record =
     [(''id'', JStr ''neet_2024_phy_007''), (''questionText'', JNull), (''options'', JArr []),
      (''correctOption'', JStr ''B''), (''classification'', JObj [])]"

text \<open>Question \<open>n\<close> with the text of the example question, and a service that answers
  every request with a complete record that carries no id.\<close>

definition numbered_question :: "int \<Rightarrow> raw_question" where
  "numbered_question n = example_question\<lparr>rq_number := n\<rparr>"

definition obliging_service :: "nat \<Rightarrow> completion" where
  "obliging_service k = Completed 200 1500 900 (Some complete_record)"


text \<open>A service whose answer to the request numbered \<open>k\<close> has a \<^verbatim>\<open>null\<close> question text.\<close>

definition null_text_at :: "nat \<Rightarrow> nat \<Rightarrow> completion" where
  "null_text_at k j =
     (if j = k then Completed 200 1500 900 (Some null_text_record)
      else Completed 200 1500 900 (Some complete_record))"

definition example_config :: "(nat \<Rightarrow> completion) \<Rightarrow> nat \<Rightarrow> run_config" where
  "example_config srv n =
     \<lparr>cfg_service = srv, cfg_max_retries = 5, cfg_batch_size = n, cfg_resume = False, cfg_dry_run = False\<rparr>"

text \<open>A committed record with the id \<open>i\<close> and the title \<open>t\<close>, and two batch directories.\<close>

definition titled :: "json \<Rightarrow> string \<Rightarrow> object" where
  "titled i t = (''id'', i) # (''title'', JStr t) # record_body"

definition repeated_dir :: "(string \<times> object list) list" where
  "repeated_dir =
     [(batch_file_name 1, [titled (JStr ''neet_2024_phy_001'') ''copy in batch 1'']),
      (batch_file_name 0, [titled (JStr ''neet_2024_phy_001'') ''first copy in batch 0'',
                           titled (JStr ''neet_2024_phy_002'') ''another question'',
                           titled (JStr ''neet_2024_phy_001'') ''second copy in batch 0''])]"

definition late_dir :: "(string \<times> object list) list" where
  "late_dir =
     [(batch_file_name 9999, [titled (JStr ''neet_2024_phy_001'') ''copy in batch 9999'',
                              titled (JStr []) ''first record with the empty id'',
                              titled (JStr []) ''second record with the empty id'']),
      (batch_file_name 10000, [titled (JStr ''neet_2024_phy_001'') ''copy in batch 10000''])]"

section \<open>The case of letters\<close>

lemma lower_char_alphabet:
  "map lower_char ''ABCDEFGHIJKLMNOPQRSTUVWXYZ'' = ''abcdefghijklmnopqrstuvwxyz''"
  by code_simp

lemma lower_char_other:
  "map lower_char ''abcdefghijklmnopqrstuvwxyz0123456789 @[`{?.()'' = ''abcdefghijklmnopqrstuvwxyz0123456789 @[`{?.()''"
  by code_simp

lemma lower_char_latin:
  "map lower_char [CHR 0xC0, CHR 0xD6, CHR 0xD7, CHR 0xD8, CHR 0xDE, CHR 0xDF, CHR 0xE0, CHR 0xFF, CHR 0x85, CHR 0xB5] =
     [CHR 0xE0, CHR 0xF6, CHR 0xD7, CHR 0xF8, CHR 0xFE, CHR 0xDF, CHR 0xE0, CHR 0xFF, CHR 0x85, CHR 0xB5]"
  by code_simp

section \<open>Properties of the cost tracker\<close>

lemma record_calls_general:
  "total_calls (record_calls cs t) - (successful_calls (record_calls cs t) + failed_calls (record_calls cs t))
     = total_calls t - (successful_calls t + failed_calls t)
   \<and> input_tokens (record_calls cs t) = input_tokens t + sum_list (map fst cs)
   \<and> output_tokens (record_calls cs t) = output_tokens t + sum_list (map (fst \<circ> snd) cs)"
  by (induction cs t rule: record_calls.induct) (auto simp: record_call_def Let_def)

text \<open>
  C10. Starting from a freshly constructed tracker, after any sequence of
  \<^verbatim>\<open>record_call\<close> invocations the total number of calls is the number of successful
  calls plus the number of failed calls, and the two token counters hold the sums of the
  input-token and output-token arguments of all the calls.
\<close>

theorem C10_record_call_invariant:
  "total_calls (record_calls cs CostTracker_init)
     = successful_calls (record_calls cs CostTracker_init) + failed_calls (record_calls cs CostTracker_init)
   \<and> input_tokens (record_calls cs CostTracker_init) = sum_list (map fst cs)
   \<and> output_tokens (record_calls cs CostTracker_init) = sum_list (map (fst \<circ> snd) cs)"
  using record_calls_general [of cs CostTracker_init]
  by (simp add: CostTracker_init_def)

section \<open>Properties of parse\_options\<close>


lemma option_map_str_nat:
  "n < 4 \<Longrightarrow> option_map (str_nat (n + 1)) = Some [''ABCD'' ! n]"
proof -
  assume "n < 4"
  then consider "n = 0" | "n = 1" | "n = 2" | "n = 3" by linarith
  then show ?thesis
    by cases (simp_all add: str_nat.simps option_map_def digit_char_def)
qed

lemma option_map_str_nat_Suc:
  "n < 4 \<Longrightarrow> option_map (str_nat (Suc n)) = Some [''ABCD'' ! n]"
  using option_map_str_nat [of n] by simp

lemma pad_options_closed:
  "pad_options options =
     Inr (options @ map (\<lambda>i. \<lparr>od_id = [''ABCD'' ! i], od_text = ''''\<rparr>) [length options..<4])"
proof (induction options rule: pad_options.induct)
  case (1 options)
  show ?case
  proof (cases "length options < 4")
    case True
    then have "pad_options options =
        pad_options (options @ [\<lparr>od_id = [''ABCD'' ! length options], od_text = ''''\<rparr>])"
      by (subst pad_options.simps) (simp add: option_map_str_nat_Suc)
    also have "\<dots> = Inr ((options @ [\<lparr>od_id = [''ABCD'' ! length options], od_text = ''''\<rparr>]) @
        map (\<lambda>i. \<lparr>od_id = [''ABCD'' ! i], od_text = ''''\<rparr>) [Suc (length options)..<4])"
      using "1.IH" [OF True option_map_str_nat [OF True]] by simp
    finally show ?thesis using True by (simp add: upt_conv_Cons)
  next
    case False
    then show ?thesis by (subst pad_options.simps) simp
  qed
qed

text \<open>
  C9. For every text (and whatever pairs the option pattern finds in it),
  \<^verbatim>\<open>parse_options\<close> returns exactly four entries: the first four recognised options,
  and, when fewer than four were recognised, padding entries with the empty text whose id
  is the letter of their position in the list. The ids are therefore not always the four
  distinct letters: one recognised option numbered 2 gives the ids B, B, C, D.
\<close>

theorem C9_parse_options_four:
  "\<exists>options. parse_options findall text = Inr options \<and> length options = 4 \<and>
     options = take 4 (collect_options (findall text)) @
       map (\<lambda>i. \<lparr>od_id = [''ABCD'' ! i], od_text = ''''\<rparr>) [length (collect_options (findall text))..<4]"
  by (auto simp: parse_options_def pad_options_closed)

theorem C9_parse_options_four_witness:
  "parse_options (\<lambda>t. [(''2'', ''Newton '')]) ''(2) Newton '' =
     Inr [\<lparr>od_id = ''B'', od_text = ''Newton''\<rparr>, \<lparr>od_id = ''B'', od_text = ''''\<rparr>,
          \<lparr>od_id = ''C'', od_text = ''''\<rparr>, \<lparr>od_id = ''D'', od_text = ''''\<rparr>]
   \<and> \<not> distinct (map od_id [\<lparr>od_id = ''B'', od_text = ''Newton''\<rparr>, \<lparr>od_id = ''B'', od_text = ''''\<rparr>,
          \<lparr>od_id = ''C'', od_text = ''''\<rparr>, \<lparr>od_id = ''D'', od_text = ''''\<rparr>])"
proof -
  have "collect_options [(''2'', ''Newton '')] = [\<lparr>od_id = ''B'', od_text = ''Newton''\<rparr>]"
    by code_simp
  then show ?thesis
    using C9_parse_options_four [of "\<lambda>t. [(''2'', ''Newton '')]" "''(2) Newton ''"]
    by (auto simp: upt_conv_Cons)
qed

section \<open>Properties of find\_section\_bounds\<close>

lemma scan_start_none:
  "\<forall>p\<in>set pages. \<not> any_pattern patterns p \<Longrightarrow> scan_start patterns pages i = -1"
  by (induction pages arbitrary: i) auto

lemma scan_end_none:
  "\<forall>p\<in>set pages. \<not> any_pattern patterns p \<Longrightarrow> scan_end patterns pages i end_page = end_page"
  by (induction pages arbitrary: i) auto

lemma scan_end_first:
  "\<exists>p\<in>set pages. any_pattern patterns p \<Longrightarrow>
   \<exists>k<length pages. scan_end patterns pages i end_page = i + int k \<and>
      any_pattern patterns (pages ! k) \<and> (\<forall>j<k. \<not> any_pattern patterns (pages ! j))"
proof (induction pages arbitrary: i)
  case Nil
  then show ?case by simp
next
  case (Cons page_text rest)
  show ?case
  proof (cases "any_pattern patterns page_text")
    case True
    then show ?thesis by (intro exI [of _ 0]) simp
  next
    case False
    with Cons.prems have "\<exists>p\<in>set rest. any_pattern patterns p" by simp
    from Cons.IH [OF this, of "i + 1"] obtain k where k: "k < length rest"
      "scan_end patterns rest (i + 1) end_page = i + 1 + int k"
      "any_pattern patterns (rest ! k)" "\<forall>j<k. \<not> any_pattern patterns (rest ! j)"
      by blast
    have "\<forall>j<Suc k. \<not> any_pattern patterns ((page_text # rest) ! j)"
      using False k(4) by (auto simp: nth_Cons split: nat.splits)
    with False k show ?thesis by (intro exI [of _ "Suc k"]) simp
  qed
qed

text \<open>
  C5, as the code has it. For every non-empty list of page texts in which no page matches a
  section-start pattern, \<^verbatim>\<open>find_section_bounds\<close> returns \<open>start_page = 0\<close>; \<open>end_page\<close> is
  the page count when no page after the first matches a section-end pattern, and otherwise
  the index of the first page after page 0 that matches one.
\<close>

theorem C5_bounds_without_start:
  assumes "pages \<noteq> []"
    and "\<forall>p\<in>set pages. \<not> any_pattern SECTION_START_PATTERNS p"
  shows "\<exists>end_page. find_section_bounds pages = (0, end_page) \<and>
     (if \<exists>i. 1 \<le> i \<and> i < length pages \<and> any_pattern SECTION_END_PATTERNS (pages ! i)
      then 1 \<le> end_page \<and> end_page < int (length pages) \<and>
           any_pattern SECTION_END_PATTERNS (pages ! nat end_page) \<and>
           (\<forall>j. 1 \<le> j \<and> j < nat end_page \<longrightarrow> \<not> any_pattern SECTION_END_PATTERNS (pages ! j))
      else end_page = int (length pages))"
proof -
  obtain first rest where pages: "pages = first # rest"
    using assms(1) by (cases pages) auto
  have start: "scan_start SECTION_START_PATTERNS pages 0 = -1"
    using assms(2) by (rule scan_start_none)
  have bounds: "find_section_bounds pages =
      (0, scan_end SECTION_END_PATTERNS rest 1 (int (length pages)))"
    unfolding find_section_bounds_def start by (simp add: pages)
  show ?thesis
  proof (cases "\<exists>p\<in>set rest. any_pattern SECTION_END_PATTERNS p")
    case True
    from scan_end_first [OF True, of 1 "int (length pages)"] obtain k where k: "k < length rest"
      "scan_end SECTION_END_PATTERNS rest 1 (int (length pages)) = 1 + int k"
      "any_pattern SECTION_END_PATTERNS (rest ! k)"
      "\<forall>j<k. \<not> any_pattern SECTION_END_PATTERNS (rest ! j)"
      by blast
    have ex: "\<exists>i. 1 \<le> i \<and> i < length pages \<and> any_pattern SECTION_END_PATTERNS (pages ! i)"
      using k(1,3) by (intro exI [of _ "Suc k"]) (simp add: pages)
    have nat_e: "nat (1 + int k) = Suc k" by simp
    have before: "\<forall>j. 1 \<le> j \<and> j < Suc k \<longrightarrow> \<not> any_pattern SECTION_END_PATTERNS (pages ! j)"
    proof (intro allI impI)
      fix j assume j: "1 \<le> j \<and> j < Suc k"
      then obtain j' where "j = Suc j'" by (cases j) auto
      with j k(4) show "\<not> any_pattern SECTION_END_PATTERNS (pages ! j)"
        by (simp add: pages)
    qed
    show ?thesis
      using ex k(1,3) before by (simp add: bounds k(2) nat_e) (simp add: pages)
  next
    case False
    then have none: "\<forall>p\<in>set rest. \<not> any_pattern SECTION_END_PATTERNS p" by blast
    have no_ex: "\<not> (\<exists>i. 1 \<le> i \<and> i < length pages \<and> any_pattern SECTION_END_PATTERNS (pages ! i))"
    proof
      assume "\<exists>i. 1 \<le> i \<and> i < length pages \<and> any_pattern SECTION_END_PATTERNS (pages ! i)"
      then obtain i where i: "1 \<le> i" "i < length pages" "any_pattern SECTION_END_PATTERNS (pages ! i)"
        by blast
      then obtain i' where "i = Suc i'" by (cases i) auto
      with i none show False by (auto simp: pages)
    qed
    show ?thesis
      using no_ex by (simp add: bounds scan_end_none [OF none])
  qed
qed

theorem C5_bounds_without_start_witness:
  "[''Cover page'', ''Questions 1 to 45''] \<noteq> [] \<and>
   \<not> any_pattern SECTION_START_PATTERNS ''Cover page'' \<and>
   \<not> any_pattern SECTION_START_PATTERNS ''Questions 1 to 45'' \<and>
   find_section_bounds [''Cover page'', ''Questions 1 to 45''] = (0, 2)"
proof -
  have cover: "\<not> any_pattern SECTION_START_PATTERNS ''Cover page''"
    by code_simp
  have questions: "\<not> any_pattern SECTION_START_PATTERNS ''Questions 1 to 45''"
    by code_simp
  have no_end: "\<not> any_pattern SECTION_END_PATTERNS ''Questions 1 to 45''"
    by code_simp
  have no_start: "\<forall>p\<in>set [''Cover page'', ''Questions 1 to 45'']. \<not> any_pattern SECTION_START_PATTERNS p"
    using cover questions by simp
  have "find_section_bounds [''Cover page'', ''Questions 1 to 45''] = (0, 2)"
    using C5_bounds_without_start [OF _ no_start] no_end
    by (auto simp: nth_Cons split: nat.splits if_splits)
  with cover questions show ?thesis by simp
qed

text \<open>
  The claim as the specification states it fails on a document whose second page carries
  the heading of the next section: no page matches a start pattern, and the end page is
  1, not the page count 2.
\<close>

theorem C5_bounds_counterexample:
  "\<not> any_pattern SECTION_START_PATTERNS ''Cover page'' \<and>
   \<not> any_pattern SECTION_START_PATTERNS ''CHEMISTRY'' \<and>
   find_section_bounds [''Cover page'', ''CHEMISTRY''] = (0, 1) \<and>
   find_section_bounds [''Cover page'', ''CHEMISTRY''] \<noteq> (0, int (length [''Cover page'', ''CHEMISTRY'']))"
  by code_simp

section \<open>Properties of call\_claude\_api\<close>


lemma fix_options_flags:
  "fix_options answer opts = Inr opts' \<Longrightarrow>
   length opts' = length opts \<and>
   (\<forall>opt\<in>set opts'. \<exists>i. opt_id opt = Some i \<and> opt_isCorrect opt = Some (Some i = answer))"
  by (induction opts arbitrary: opts') (auto split: option.splits sum.splits)

lemma fix_options_flagged:
  assumes "fix_options answer opts = Inr opts'"
  shows "filter (\<lambda>opt. opt_isCorrect opt = Some True) opts' = filter (\<lambda>opt. opt_id opt = answer) opts'"
proof (rule filter_cong [OF refl])
  fix opt assume "opt \<in> set opts'"
  with fix_options_flags [OF assms] obtain i
    where "opt_id opt = Some i" "opt_isCorrect opt = Some (Some i = answer)" by blast
  then show "(opt_isCorrect opt = Some True) = (opt_id opt = answer)" by auto
qed

lemma verify_answer_correctOption:
  "verify_answer question raw = Inr verified \<Longrightarrow> sq_correctOption verified = rq_correct_answer question"
  by (auto simp: verify_answer_def Let_def split: if_splits option.splits sum.splits)

lemma verify_answer_options:
  assumes "verify_answer question raw = Inr verified"
  shows "if sq_correctOption raw = rq_correct_answer question then verified = raw
         else flagged_correct verified =
                filter (\<lambda>opt. opt_id opt = rq_correct_answer question) (options_of verified)"
  using assms
  by (auto simp: verify_answer_def Let_def flagged_correct_def options_of_def fix_options_flagged
      split: if_splits option.splits sum.splits)

lemma ensure_required_claude_fields:
  "sq_options (ensure_required_claude question verified) = sq_options verified"
  "sq_correctOption verified = rq_correct_answer question \<Longrightarrow>
     sq_correctOption (ensure_required_claude question verified) = rq_correct_answer question"
  by (auto simp: ensure_required_claude_def split: option.splits)

lemma requests_sent_steps:
  "requests_sent (count_request st) = Suc (requests_sent st)"
  "requests_sent (track inp outp success st) = requests_sent st"
  "requests_sent (attempt_failed st) = requests_sent st"
  by (simp_all add: count_request_def track_def attempt_failed_def)

lemma claude_attempts_Some:
  "claude_attempts service max_retries question attempt st = (Some result, st') \<Longrightarrow>
   \<exists>k status inp outp raw verified.
      requests_sent st \<le> k \<and> Suc k = requests_sent st' \<and>
      service k = Response status inp outp (Some raw) \<and> status < 400 \<and>
      verify_answer question raw = Inr verified \<and>
      result = ensure_required_claude question verified"
proof (induction service max_retries question attempt st rule: claude_attempts.induct)
  case (1 service max_retries question attempt st)
  from "1.prems" have le: "attempt \<le> max_retries"
    by (subst (asm) claude_attempts.simps) (auto split: if_splits)
  show ?case
  proof (cases "service (requests_sent st)")
    case Raised
    with "1.prems" le
    have "claude_attempts service max_retries question (attempt + 1) (attempt_failed (count_request st))
            = (Some result, st')"
      by (subst (asm) claude_attempts.simps) simp
    from "1.IH"(1) [OF le Raised this] show ?thesis
      by (auto simp: requests_sent_steps) (metis Suc_leD)
  next
    case (Response status inp outp parsed)
    show ?thesis
    proof (cases "status \<ge> 400")
      case True
      with "1.prems" le Response
      have "claude_attempts service max_retries question (attempt + 1) (attempt_failed (count_request st))
              = (Some result, st')"
        by (subst (asm) claude_attempts.simps) simp
      from "1.IH"(2) [OF le Response True this] show ?thesis
        by (auto simp: requests_sent_steps) (metis Suc_leD)
    next
      case False
      define st1 where "st1 = track inp outp True (count_request st)"
      show ?thesis
      proof (cases parsed)
        case None
        with "1.prems" le Response False
        have "claude_attempts service max_retries question (attempt + 1) (attempt_failed st1)
                = (Some result, st')"
          by (subst (asm) claude_attempts.simps) (simp add: st1_def)
        from "1.IH"(3) [OF le Response False st1_def [symmetric, THEN sym] None this] show ?thesis
          by (auto simp: requests_sent_steps st1_def) (metis Suc_leD)
      next
        case (Some raw)
        show ?thesis
        proof (cases "verify_answer question raw")
          case (Inl e)
          with "1.prems" le Response False Some
          have "claude_attempts service max_retries question (attempt + 1) (attempt_failed st1)
                  = (Some result, st')"
            by (subst (asm) claude_attempts.simps) (simp add: st1_def)
          from "1.IH"(4) [OF le Response False st1_def [symmetric, THEN sym] Some Inl this] show ?thesis
            by (auto simp: requests_sent_steps st1_def) (metis Suc_leD)
        next
          case (Inr verified)
          with "1.prems" le Response False Some
          have "result = ensure_required_claude question verified" "st' = st1"
            by (subst (asm) claude_attempts.simps, simp add: st1_def)+
          with Response False Some Inr show ?thesis
            by (intro exI [of _ "requests_sent st"]) (auto simp: requests_sent_steps st1_def)
        qed
      qed
    qed
  qed
qed



text \<open>
  C1. Whenever \<^verbatim>\<open>call_claude_api\<close> returns a record for a question whose answer is known
  from the document, the record's \<^verbatim>\<open>correctOption\<close> is that answer, whatever the parsed
  response of the service said.
\<close>

theorem C1_correct_option_is_ground_truth:
  assumes "rq_correct_answer question = Some answer"
    and "call_claude_api service max_retries question st = (Some result, st')"
  shows "sq_correctOption result = Some answer"
proof -
  from assms(2) obtain raw verified where
    v: "verify_answer question raw = Inr verified"
    and r: "result = ensure_required_claude question verified"
    unfolding call_claude_api_def by (blast dest: claude_attempts_Some)
  from verify_answer_correctOption [OF v] assms(1) r show ?thesis
    by (simp add: ensure_required_claude_fields)
qed

theorem C1_correct_option_is_ground_truth_witness:
  "rq_correct_answer example_question = Some ''B'' \<and>
   sq_correctOption (example_response ''C'' ''C'') = Some ''C'' \<and>
   (\<exists>result st'.
      call_claude_api (\<lambda>k. Response 200 1500 900 (Some (example_response ''C'' ''C''))) 5
        example_question fresh_api_state = (Some result, st') \<and>
      sq_correctOption result = Some ''B'')"
proof -
  have answer: "rq_correct_answer example_question = Some ''B''"
    by (simp add: example_question_def)
  have raw: "sq_correctOption (example_response ''C'' ''C'') = Some ''C''"
    by (simp add: example_response_def)
  have "fst (call_claude_api (\<lambda>k. Response 200 1500 900 (Some (example_response ''C'' ''C''))) 5
          example_question fresh_api_state) \<noteq> None"
    by code_simp
  then obtain result st' where
    call: "call_claude_api (\<lambda>k. Response 200 1500 900 (Some (example_response ''C'' ''C''))) 5
             example_question fresh_api_state = (Some result, st')"
    by (cases "call_claude_api (\<lambda>k. Response 200 1500 900 (Some (example_response ''C'' ''C''))) 5
             example_question fresh_api_state") auto
  from C1_correct_option_is_ground_truth [OF answer call] answer raw call show ?thesis
    by blast
qed

text \<open>
  C2 does not hold of the code. Question 7 has the answer B; the service names B as
  \<^verbatim>\<open>correctOption\<close> but sets the \<^verbatim>\<open>isCorrect\<close> flag of option A. The answers agree, so the
  check does not enter its branch, where the flags of the options are recomputed, and the
  record is returned with \<^verbatim>\<open>correctOption\<close> B and the one flagged option A.
\<close>

theorem C2_agreeing_response_keeps_flags:
  "rq_correct_answer example_question = Some ''B'' \<and>
   map_option (\<lambda>result. (sq_correctOption result, map opt_id (flagged_correct result)))
     (fst (call_claude_api (\<lambda>k. Response 200 1500 900 (Some (example_response ''B'' ''A''))) 5
        example_question fresh_api_state))
   = Some (Some ''B'', [Some ''A''])"
  by code_simp

section \<open>Properties of validate\_question\_completeness\<close>


text \<open>
  C8 does not hold of the code. The record has every required key, and its
  \<^verbatim>\<open>questionText\<close> is \<^verbatim>\<open>null\<close>: the check of the required keys passes, and
  \<^verbatim>\<open>len(question_text)\<close> raises \<^verbatim>\<open>TypeError\<close>, where the claim has a pair of a truth value and
  a list of reasons returned for every record.
\<close>

theorem C8_null_question_text_raises:
  "missing_fields null_text_record = [] \<and>
   validate_question_completeness repr null_text_record = Inl TypeError"
  by code_simp

section \<open>Properties of process\_questions\_in\_batches\<close>



lemma generated_append: "generated (outs @ outs') = generated outs @ generated outs'"
  by (induction outs rule: generated.induct) auto









lemma generated_Cons: "generated (out # outs) = generated [out] @ generated outs"
  by (cases out) auto





text \<open>
  What the theorem leaves out: a response whose \<^verbatim>\<open>questionText\<close> is \<^verbatim>\<open>null\<close> makes the
  validator raise, outside every \<^verbatim>\<open>try\<close>, and the run ends with the exception; the record
  generated before it is neither written to a batch file nor marked in the progress file.
\<close>

lemma null_question_text_aborts_the_run:
  "process_questions_in_batches repr (example_config (null_text_at 1) 10)
     [numbered_question 1, numbered_question 2, numbered_question 3] [] None [] 0 = Inl TypeError"
  by code_simp

text \<open>
  C3 does not hold of the code. Three questions in batches of one, from no earlier
  progress, with a service that answers every request: the three commits write the batch
  files 0, 2 and 5 and leave \<^verbatim>\<open>last_completed_batch = 5\<close>, where consecutive numbering
  gives 0, 1, 2. The turn numbered \<open>batch_num\<close> adds \<open>1 + batch_num\<close> to a counter that the
  turns before it have already advanced.
\<close>

theorem C3_batch_numbers_skip:
  "map_sum id (\<lambda>st. (map fst (batches_dir st), progress_file st))
     (process_questions_in_batches repr (example_config obliging_service 1)
        (map numbered_question [1, 2, 3]) [] None [] 0)
   = Inr ([''batch_0000.json'', ''batch_0002.json'', ''batch_0005.json''],
          Some \<lparr>last_completed_batch = 5, next_question_index = 3, processed_question_ids = [1, 2, 3]\<rparr>)"
  by code_simp

end
